theory Spec2Isabelle
  imports Complex_Main
begin

section \<open>Python values used by app.py\<close>

text \<open>
  A Python float is either a finite number, an infinity or NaN. Finite floats are
  idealised as real numbers: rounding and overflow of float64 arithmetic are not
  modelled. The only float arithmetic of app.py itself is the subtraction
  \<^verbatim>\<open>prediction - avg_fare_at_hour\<close> and the conversions \<^verbatim>\<open>float(...)\<close>.
\<close>

datatype pyfloat = Finite real | PosInf | NegInf | NaN


fun float_sub :: "pyfloat \<Rightarrow> pyfloat \<Rightarrow> pyfloat" where
  "float_sub (Finite a) (Finite b) = Finite (a - b)"
| "float_sub NaN y = NaN"
| "float_sub x NaN = NaN"
| "float_sub PosInf PosInf = NaN"
| "float_sub NegInf NegInf = NaN"
| "float_sub PosInf y = PosInf"
| "float_sub NegInf y = NegInf"
| "float_sub (Finite a) PosInf = NegInf"
| "float_sub (Finite a) NegInf = PosInf"

text \<open>
  The exceptions that the modelled code can meet. All of them are subclasses of
  Python's \<^verbatim>\<open>Exception\<close>, so \<^verbatim>\<open>except Exception\<close> catches every one of them,
  while \<^verbatim>\<open>except FileNotFoundError\<close> catches only the first.
\<close>

datatype exn =
    FileNotFoundError
  | KeyError string
  | IndexError
  | TypeError
  | AttributeError
  | OverflowError
  | OtherException string

text \<open>
  \<^verbatim>\<open>float(n)\<close> for a Python int: exact in the idealisation, and an OverflowError
  when the int is too large for a float64 (it would round to \<open>2 ^ 1024\<close>).
\<close>

definition float_of_int :: "int \<Rightarrow> exn + pyfloat" where
  "float_of_int n =
     (if \<bar>n\<bar> < 2 ^ 1024 - 2 ^ 970 then Inr (Finite (of_int n)) else Inl OverflowError)"

text \<open>
  The object \<^verbatim>\<open>pickle.load\<close> returns is any Python object. Three kinds matter to
  app.py: \<^verbatim>\<open>None\<close>, an object with a \<^verbatim>\<open>predict_one\<close> method (the river pipeline;
  the method is a parameter here, river itself is a library outside the repository),
  and any other object, on which \<^verbatim>\<open>.predict_one\<close> is an AttributeError.
\<close>

datatype pyobj =
    PyNone
  | Pipeline "(string \<rightharpoonup> pyfloat) \<Rightarrow> exn + pyfloat"
  | OtherObj

fun predict_one :: "pyobj \<Rightarrow> (string \<rightharpoonup> pyfloat) \<Rightarrow> exn + pyfloat" where
  "predict_one (Pipeline p) x = p x"
| "predict_one PyNone x = Inl AttributeError"
| "predict_one OtherObj x = Inl AttributeError"

section \<open>The pandas operations app.py uses\<close>

text \<open>
  A cell of a table read from CSV is a number (an int64 or float64 column; NaN for a
  missing value) or a string (an object column). A DataFrame has its column labels and
  its rows; a row gives a cell to each label, and a label it does not mention reads as
  NaN.
\<close>

datatype cell = Num pyfloat | Str string

record dataframe =
  columns :: "string list"
  rows :: "(string \<times> cell) list list"

text \<open>\<^verbatim>\<open>pd.DataFrame()\<close>: no columns, no rows.\<close>

definition DataFrame :: dataframe where
  "DataFrame = \<lparr>columns = [], rows = []\<rparr>"

text \<open>\<^verbatim>\<open>df.empty\<close>: true when either axis has length 0.\<close>

definition empty_df :: "dataframe \<Rightarrow> bool" where
  "empty_df df = (columns df = [] \<or> rows df = [])"

text \<open>\<^verbatim>\<open>df[label]\<close>: the column as a list of cells, or KeyError.\<close>

definition getitem_col :: "dataframe \<Rightarrow> string \<Rightarrow> exn + cell list" where
  "getitem_col df label =
     (if label \<in> set (columns df)
      then Inr (map (\<lambda>r. case map_of r label of Some c \<Rightarrow> c | None \<Rightarrow> Num NaN) (rows df))
      else Inl (KeyError label))"

text \<open>
  \<^verbatim>\<open>series == hour\<close> for a Python int \<^verbatim>\<open>hour\<close>, elementwise: a number equals the
  int when it is finite with the same value; NaN, the infinities and strings never do.
\<close>

fun cell_eq_int :: "cell \<Rightarrow> int \<Rightarrow> bool" where
  "cell_eq_int (Num (Finite r)) h = (r = of_int h)"
| "cell_eq_int (Num PosInf) h = False"
| "cell_eq_int (Num NegInf) h = False"
| "cell_eq_int (Num NaN) h = False"
| "cell_eq_int (Str s) h = False"

text \<open>\<^verbatim>\<open>df[mask]\<close>: the rows whose mask entry is true.\<close>

definition getitem_mask :: "dataframe \<Rightarrow> bool list \<Rightarrow> dataframe" where
  "getitem_mask df msk = df\<lparr>rows := map fst (filter snd (zip (rows df) msk))\<rparr>"

text \<open>\<^verbatim>\<open>series.values[0]\<close>: IndexError on an empty array.\<close>

fun values0 :: "cell list \<Rightarrow> exn + cell" where
  "values0 [] = Inl IndexError"
| "values0 (c # cs) = Inr c"

text \<open>
  Line 119:
  \<^verbatim>\<open>df_hour[df_hour['Hour'] == hour]['Avg_Fare'].values[0]\<close>
\<close>

definition avg_fare_at_hour :: "dataframe \<Rightarrow> int \<Rightarrow> exn + cell" where
  "avg_fare_at_hour df_hour hour =
     (case getitem_col df_hour ''Hour'' of
        Inl e \<Rightarrow> Inl e
      | Inr hs \<Rightarrow>
          (case getitem_col (getitem_mask df_hour (map (\<lambda>c. cell_eq_int c hour) hs)) ''Avg_Fare'' of
             Inl e \<Rightarrow> Inl e
           | Inr vs \<Rightarrow> values0 vs))"

section \<open>What the page shows\<close>

text \<open>
  The Streamlit calls of app.py that put something on the page, in the order the script
  makes them. Texts are abbreviated to ASCII (the emoji are left out); a formatted
  number is kept as the number. \<^verbatim>\<open>St_error\<close> carries the exception it prints, if any.
\<close>

datatype ui =
    St_title string
  | St_markdown string
  | St_subheader string
  | St_write string
  | St_form string
  | St_toast string
  | St_error string "exn option"
  | St_warning string
  | St_success pyfloat
  | St_metric string pyfloat "pyfloat option"
  | St_chart string

text \<open>How a run of the script ends: at its last line, at \<^verbatim>\<open>st.stop()\<close>, or with an
  exception nothing caught.\<close>

datatype outcome = Finished | Stopped | Raised exn

section \<open>Resource loading (lines 24 to 64)\<close>

text \<open>
  The world outside the script: the local file system (\<^verbatim>\<open>open(name, 'rb')\<close>),
  \<^verbatim>\<open>pickle.load\<close>, \<^verbatim>\<open>pd.read_csv\<close> on a \<^verbatim>\<open>gs://\<close> path, and the rendering of the
  dashboard's KPI and chart section (lines 140 to 165), which no modelled property
  looks into: it is given the two tables and may raise.
\<close>

type_synonym bytes = "nat list"

record env =
  open_rb :: "string \<Rightarrow> exn + bytes"
  pickle_load :: "bytes \<Rightarrow> exn + pyobj"
  read_csv :: "string \<Rightarrow> exn + dataframe"
  dashboard :: "dataframe \<Rightarrow> dataframe \<Rightarrow> ui list \<times> exn option"

definition BUCKET_NAME :: string where
  "BUCKET_NAME = ''final_project_051225''"

definition GOLD_PATH :: string where
  "GOLD_PATH = ''gs://'' @ BUCKET_NAME @ ''/gold''"

text \<open>The tuple \<^verbatim>\<open>load_resources\<close> returns; a table is \<^verbatim>\<open>None\<close> or a DataFrame.\<close>

type_synonym resources = "pyobj \<times> dataframe option \<times> dataframe option"

text \<open>
  The outer \<^verbatim>\<open>except FileNotFoundError\<close> of \<^verbatim>\<open>load_resources\<close>: it answers the
  triple of \<^verbatim>\<open>None\<close>; any other exception leaves the function.
\<close>

definition except_FileNotFoundError :: "exn \<Rightarrow> ui list \<times> (exn + resources)" where
  "except_FileNotFoundError e =
     (if e = FileNotFoundError then ([], Inr (PyNone, None, None)) else ([], Inl e))"

text \<open>
  The body of \<^verbatim>\<open>load_resources\<close>: what it shows, and what it returns or raises. The
  inner \<^verbatim>\<open>except Exception\<close> replaces both tables by \<^verbatim>\<open>pd.DataFrame()\<close> when
  either read fails.
\<close>

definition load_resources :: "env \<Rightarrow> ui list \<times> (exn + resources)" where
  "load_resources w =
     (case open_rb w ''modelo_taxi_fare.pkl'' of
        Inl e \<Rightarrow> except_FileNotFoundError e
      | Inr f \<Rightarrow>
          (case pickle_load w f of
             Inl e \<Rightarrow> except_FileNotFoundError e
           | Inr model \<Rightarrow>
               (case read_csv w (GOLD_PATH @ ''/gold_stats_hour.csv'') of
                  Inl e \<Rightarrow>
                    ([St_error ''Error reading from Bucket'' (Some e)],
                     Inr (model, Some DataFrame, Some DataFrame))
                | Inr df_hour \<Rightarrow>
                    (case read_csv w (GOLD_PATH @ ''/gold_stats_day.csv'') of
                       Inl e \<Rightarrow>
                         ([St_error ''Error reading from Bucket'' (Some e)],
                          Inr (model, Some DataFrame, Some DataFrame))
                     | Inr df_day \<Rightarrow>
                         ([St_toast ''Gold Data successfully loaded from GCS''],
                          Inr (model, Some df_hour, Some df_day))))))"

text \<open>
  \<^verbatim>\<open>@st.cache_resource\<close>: the first call that returns stores its result (with the
  elements it showed, which a later hit shows again); every later call answers from the
  store without running the body. A call that raises stores nothing.
\<close>

type_synonym cache = "(ui list \<times> resources) option"

definition cached_load_resources :: "env \<Rightarrow> cache \<Rightarrow> (ui list \<times> (exn + resources)) \<times> cache" where
  "cached_load_resources w c =
     (case c of
        Some (shown, r) \<Rightarrow> ((shown, Inr r), c)
      | None \<Rightarrow>
          (case load_resources w of
             (shown, Inr r) \<Rightarrow> ((shown, Inr r), Some (shown, r))
           | (shown, Inl e) \<Rightarrow> ((shown, Inl e), None)))"

section \<open>Tab 1: the fare calculator (lines 74 to 129)\<close>

text \<open>
  What the user's browser sends for the form: the four widget values and whether the
  submit button was pressed. \<^verbatim>\<open>number_input\<close> with float bounds gives a float, with int
  bounds an int; the slider gives an int; the selectbox a string.
\<close>

record trip_form =
  distance :: pyfloat
  duration :: int
  hour :: int
  day_text :: string
  submitted :: bool

text \<open>
  What Streamlit promises of each widget as app.py calls it: a number input and a
  slider answer a value between their bounds (a NaN or an infinity is not between any
  bounds), a selectbox one of its options.
\<close>

fun number_input_float :: "real \<Rightarrow> real \<Rightarrow> pyfloat \<Rightarrow> bool" where
  "number_input_float min_value max_value (Finite v) = (min_value \<le> v \<and> v \<le> max_value)"
| "number_input_float min_value max_value PosInf = False"
| "number_input_float min_value max_value NegInf = False"
| "number_input_float min_value max_value NaN = False"

definition number_input_int :: "int \<Rightarrow> int \<Rightarrow> int \<Rightarrow> bool" where
  "number_input_int min_value max_value v = (min_value \<le> v \<and> v \<le> max_value)"

definition slider :: "int \<Rightarrow> int \<Rightarrow> int \<Rightarrow> bool" where
  "slider min_value max_value v = (min_value \<le> v \<and> v \<le> max_value)"

definition selectbox :: "string list \<Rightarrow> string \<Rightarrow> bool" where
  "selectbox options v = (v \<in> set options)"

text \<open>The four widgets of \<^verbatim>\<open>trip_form\<close>, with the arguments of lines 82 to 89.\<close>

definition trip_form_widgets :: "trip_form \<Rightarrow> bool" where
  "trip_form_widgets f =
     (number_input_float 0.1 200.0 (distance f) \<and>
      number_input_int 1 300 (duration f) \<and>
      slider 0 23 (hour f) \<and>
      selectbox [''Monday'', ''Tuesday'', ''Wednesday'', ''Thursday'', ''Friday'',
                 ''Saturday'', ''Sunday''] (day_text f))"

definition day_map :: "string \<rightharpoonup> int" where
  "day_map = map_of
     [(''Monday'', 0), (''Tuesday'', 1), (''Wednesday'', 2), (''Thursday'', 3),
      (''Friday'', 4), (''Saturday'', 5), (''Sunday'', 6)]"

text \<open>
  Lines 101 to 106. The four values are computed in the order of the dictionary
  display; \<^verbatim>\<open>float(distance)\<close> of a float is that float, \<^verbatim>\<open>day_map[day_text]\<close>
  is a KeyError for a text that is not a key.
\<close>

definition x_input :: "trip_form \<Rightarrow> exn + (string \<rightharpoonup> pyfloat)" where
  "x_input f =
     (case float_of_int (duration f) of
        Inl e \<Rightarrow> Inl e
      | Inr mn \<Rightarrow>
          (case float_of_int (hour f) of
             Inl e \<Rightarrow> Inl e
           | Inr hr \<Rightarrow>
               (case day_map (day_text f) of
                  None \<Rightarrow> Inl (KeyError (day_text f))
                | Some d \<Rightarrow>
                    (case float_of_int d of
                       Inl e \<Rightarrow> Inl e
                     | Inr dy \<Rightarrow>
                         Inr [''km'' \<mapsto> distance f, ''min'' \<mapsto> mn,
                              ''hour'' \<mapsto> hr, ''day'' \<mapsto> dy]))))"

text \<open>
  Lines 116 to 126, inside the \<^verbatim>\<open>try\<close>: the comparison with the historical average.
  It answers what it showed and the exception that ended it, if one did.
  \<^verbatim>\<open>df_hour.empty\<close> on \<^verbatim>\<open>None\<close> is an AttributeError; line 120,
  \<^verbatim>\<open>prediction - avg_fare_at_hour\<close>, is a TypeError when the cell is a string.
\<close>

definition comparative_insight :: "dataframe option \<Rightarrow> int \<Rightarrow> pyfloat \<Rightarrow> ui list \<times> exn option" where
  "comparative_insight df_hour h prediction =
     (case df_hour of
        None \<Rightarrow> ([], Some AttributeError)
      | Some df \<Rightarrow>
          if empty_df df then ([], None)
          else
            (case avg_fare_at_hour df h of
               Inl e \<Rightarrow> ([], Some e)
             | Inr (Str s) \<Rightarrow> ([], Some TypeError)
             | Inr (Num avg) \<Rightarrow>
                 ([St_metric ''Your Estimate'' prediction None,
                   St_metric ''Hist. Avg at this Hour'' avg (Some (float_sub prediction avg))],
                  None)))"

text \<open>
  Lines 108 to 129, the \<^verbatim>\<open>try\<close> with its \<^verbatim>\<open>except Exception\<close>: whatever was shown
  before an exception stays on the page, and the handler adds the error message.
\<close>

definition try_predict :: "pyobj \<Rightarrow> dataframe option \<Rightarrow> int \<Rightarrow> (string \<rightharpoonup> pyfloat) \<Rightarrow> ui list" where
  "try_predict model df_hour h x =
     (case predict_one model x of
        Inl e \<Rightarrow> [St_error ''Prediction Error'' (Some e)]
      | Inr prediction \<Rightarrow>
          [St_markdown ''---'', St_success prediction] @
          (case comparative_insight df_hour h prediction of
             (shown, None) \<Rightarrow> shown
           | (shown, Some e) \<Rightarrow> shown @ [St_error ''Prediction Error'' (Some e)]))"

text \<open>
  The block \<^verbatim>\<open>with tab1:\<close>. The input dictionary is built outside the \<^verbatim>\<open>try\<close>, so
  an exception there ends the script.
\<close>

definition tab1 :: "pyobj \<Rightarrow> dataframe option \<Rightarrow> trip_form \<Rightarrow> ui list \<times> exn option" where
  "tab1 model df_hour f =
     (let form = [St_subheader ''Real-time Fare Estimator'',
                  St_write ''Enter trip details to estimate the taximeter cost.'',
                  St_form ''trip_form'']
      in if submitted f
         then (case x_input f of
                 Inl e \<Rightarrow> (form, Some e)
               | Inr x \<Rightarrow> (form @ try_predict model df_hour (hour f) x, None))
         else (form, None))"

section \<open>Tab 2: the dashboard (lines 134 to 165)\<close>

definition tab2 :: "env \<Rightarrow> dataframe option \<Rightarrow> dataframe option \<Rightarrow> ui list \<times> exn option" where
  "tab2 w df_hour df_day =
     (let head = [St_subheader ''Historical Market Trends (Gold Layer)''];
          warn = [St_warning ''Gold data could not be loaded from the Bucket.'']
      in case df_hour of
           None \<Rightarrow> (head, Some AttributeError)
         | Some dh \<Rightarrow>
             if empty_df dh then (head @ warn, None)
             else
               (case df_day of
                  None \<Rightarrow> (head, Some AttributeError)
                | Some dd \<Rightarrow>
                    if empty_df dd then (head @ warn, None)
                    else (case dashboard w dh dd of (shown, r) \<Rightarrow> (head @ shown, r))))"

section \<open>The script\<close>

text \<open>
  One run of app.py from its first line: the page header, the cached load, the halt
  when no model was loaded, then the two tabs. It answers the page, how the run ended
  and the cache it leaves to the next run.
\<close>

definition app :: "env \<Rightarrow> cache \<Rightarrow> trip_form \<Rightarrow> ui list \<times> outcome \<times> cache" where
  "app w c f =
     (let page = [St_title ''Chicago Taxi: AI & Analytics'',
                  St_markdown ''### Final Cloud Computing Project'',
                  St_markdown ''Integrated platform for Fare Prediction (AI) and Business Intelligence (BI).'']
      in case cached_load_resources w c of
           ((shown, Inl e), c') \<Rightarrow> (page @ shown, Raised e, c')
         | ((shown, Inr (PyNone, df_hour, df_day)), c') \<Rightarrow>
             (page @ shown @
                [St_error ''Critical Error: modelo_taxi_river.pkl not found.'' None,
                 St_warning ''Please make sure to upload the .pkl file to the app directory.''],
              Stopped, c')
         | ((shown, Inr (model, df_hour, df_day)), c') \<Rightarrow>
             (case tab1 model df_hour f of
                (t1, Some e) \<Rightarrow> (page @ shown @ t1, Raised e, c')
              | (t1, None) \<Rightarrow>
                  (case tab2 w df_hour df_day of
                     (t2, Some e) \<Rightarrow> (page @ shown @ t1 @ t2, Raised e, c')
                   | (t2, None) \<Rightarrow> (page @ shown @ t1 @ t2, Finished, c'))))"

section \<open>Observations on a page\<close>

text \<open>The fares a page shows as "Estimated Fare" (the \<^verbatim>\<open>st.success\<close> elements), in order.\<close>

fun estimated_fares :: "ui list \<Rightarrow> pyfloat list" where
  "estimated_fares [] = []"
| "estimated_fares (St_success p # us) = p # estimated_fares us"
| "estimated_fares (u # us) = estimated_fares us"

text \<open>The first component of what \<^verbatim>\<open>load_resources\<close> returns, or what it raises.\<close>

definition loaded_model :: "env \<Rightarrow> exn + pyobj" where
  "loaded_model w =
     (case snd (load_resources w) of
        Inl e \<Rightarrow> Inl e
      | Inr (model, df_hour, df_day) \<Rightarrow> Inr model)"

section \<open>The input check of the core's two requests\<close>

text \<open>
  The object in \<^verbatim>\<open>modelo_taxi_fare.pkl\<close> is a pipeline of the river library; neither
  the file nor the library is among the sources, and app.py itself checks no field
  range (the widgets keep them). The MalformedInput policy of the core is therefore
  taken from the specification, sections 3, 6 and 7. The encoder and the regressor
  behind the check stay parameters: their float64 arithmetic is not modelled.
\<close>







section \<open>Concrete inputs\<close>

text \<open>The form as the page first offers it, with Wednesday chosen, submitted.\<close>

definition example_trip :: trip_form where
  "example_trip =
     \<lparr>distance = Finite 5.0, duration = 15, hour = 14, day_text = ''Wednesday'',
      submitted = True\<rparr>"

text \<open>An hourly table with a single row, for hour 3.\<close>

definition example_hours :: dataframe where
  "example_hours =
     \<lparr>columns = [''Hour'', ''Avg_Fare''],
      rows = [[(''Hour'', Num (Finite 3)), (''Avg_Fare'', Num (Finite 10))]]\<rparr>"

text \<open>A loaded object whose \<^verbatim>\<open>predict_one\<close> answers the same fare for every input.\<close>

definition constant_model :: "pyfloat \<Rightarrow> pyobj" where
  "constant_model v = Pipeline (\<lambda>x. Inr v)"

text \<open>An hourly table with a single row, for hour 14, and a daily table with its two
  columns and no row.\<close>

definition afternoon_hours :: dataframe where
  "afternoon_hours =
     \<lparr>columns = [''Hour'', ''Avg_Fare''],
      rows = [[(''Hour'', Num (Finite 14)), (''Avg_Fare'', Num (Finite 10))]]\<rparr>"

definition no_days :: dataframe where
  "no_days = \<lparr>columns = [''Day'', ''Total_Trips''], rows = []\<rparr>"

text \<open>A world with a model on disk, an hourly table and a daily table without
  rows.\<close>

definition no_days_world :: env where
  "no_days_world =
     \<lparr>open_rb = (\<lambda>name. if name = ''modelo_taxi_fare.pkl'' then Inr [128, 4, 149]
                         else Inl FileNotFoundError),
      pickle_load = (\<lambda>b. Inr (constant_model (Finite 12))),
      read_csv = (\<lambda>path. if path = GOLD_PATH @ ''/gold_stats_hour.csv''
                           then Inr afternoon_hours else Inr no_days),
      dashboard = (\<lambda>dh dd. ([], None))\<rparr>"

text \<open>A world without the artifact file.\<close>

definition no_artifact_world :: env where
  "no_artifact_world =
     \<lparr>open_rb = (\<lambda>name. Inl FileNotFoundError),
      pickle_load = (\<lambda>b. Inr (constant_model (Finite 12))),
      read_csv = (\<lambda>path. Inr example_hours),
      dashboard = (\<lambda>dh dd. ([], None))\<rparr>"

text \<open>A world with a model on disk and a bucket that cannot be read.\<close>

definition bucket_down_world :: env where
  "bucket_down_world =
     \<lparr>open_rb = (\<lambda>name. if name = ''modelo_taxi_fare.pkl'' then Inr [128, 4, 149]
                         else Inl FileNotFoundError),
      pickle_load = (\<lambda>b. Inr (constant_model (Finite 12))),
      read_csv = (\<lambda>path. Inl (OtherException ''DefaultCredentialsError'')),
      dashboard = (\<lambda>dh dd. ([], None))\<rparr>"

text \<open>A world whose artifact file unpickles to an object that is no model (the pickle
  of the integer 7), with an hourly table and a daily table without rows.\<close>

definition mismatched_world :: env where
  "mismatched_world =
     \<lparr>open_rb = (\<lambda>name. if name = ''modelo_taxi_fare.pkl'' then Inr [128, 4, 75, 7, 46]
                         else Inl FileNotFoundError),
      pickle_load = (\<lambda>b. if b = [128, 4, 75, 7, 46] then Inr OtherObj
                          else Inl (OtherException ''UnpicklingError'')),
      read_csv = (\<lambda>path. if path = GOLD_PATH @ ''/gold_stats_hour.csv''
                           then Inr example_hours else Inr no_days),
      dashboard = (\<lambda>dh dd. ([], None))\<rparr>"



section \<open>Properties of the table lookup\<close>

lemma filter_mask_none:
  "\<forall>b \<in> set msk. \<not> b \<Longrightarrow> filter snd (zip rs msk) = []"
  by (auto simp: filter_empty_conv dest: set_zip_rightD)

lemma getitem_mask_none:
  "\<forall>b \<in> set msk. \<not> b \<Longrightarrow> rows (getitem_mask df msk) = []"
  by (simp add: getitem_mask_def filter_mask_none)

lemma columns_getitem_mask: "columns (getitem_mask df msk) = columns df"
  by (simp add: getitem_mask_def)

lemma avg_fare_at_hour_no_row:
  assumes "getitem_col df ''Hour'' = Inr hs"
      and "\<forall>c \<in> set hs. \<not> cell_eq_int c h"
      and "''Avg_Fare'' \<in> set (columns df)"
  shows "avg_fare_at_hour df h = Inl IndexError"
proof -
  have "rows (getitem_mask df (map (\<lambda>c. cell_eq_int c h) hs)) = []"
    using assms(2) by (intro getitem_mask_none) auto
  then show ?thesis
    using assms(1,3) by (simp add: avg_fare_at_hour_def getitem_col_def columns_getitem_mask)
qed

lemma empty_df_DataFrame: "empty_df DataFrame"
  by (simp add: empty_df_def DataFrame_def)

lemma example_trip_fields: "submitted example_trip" "hour example_trip = 14"
  by (simp_all add: example_trip_def)

lemma x_input_example_trip:
  "x_input example_trip =
     Inr [''km'' \<mapsto> Finite 5, ''min'' \<mapsto> Finite 15, ''hour'' \<mapsto> Finite 14, ''day'' \<mapsto> Finite 2]"
  by (simp add: x_input_def example_trip_def float_of_int_def day_map_def)

text \<open>
  C10. The hourly table is not empty and has both columns, but no cell of its Hour
  column equals the selected hour. Then \<^verbatim>\<open>.values[0]\<close> raises IndexError inside the
  \<^verbatim>\<open>try\<close>: the page shows the estimated fare that \<^verbatim>\<open>predict_one\<close> returned and, after
  it, the message "Prediction Error" with that IndexError.
\<close>

theorem tab1_no_row_for_hour:
  assumes "submitted f"
      and "x_input f = Inr x"
      and "predict_one model x = Inr prediction"
      and "\<not> empty_df df_hour"
      and "getitem_col df_hour ''Hour'' = Inr hs"
      and "\<forall>c \<in> set hs. \<not> cell_eq_int c (hour f)"
      and "''Avg_Fare'' \<in> set (columns df_hour)"
  shows "tab1 model (Some df_hour) f =
           ([St_subheader ''Real-time Fare Estimator'',
             St_write ''Enter trip details to estimate the taximeter cost.'',
             St_form ''trip_form'',
             St_markdown ''---'',
             St_success prediction,
             St_error ''Prediction Error'' (Some IndexError)], None)"
  using assms avg_fare_at_hour_no_row [OF assms(5,6,7)]
  by (simp add: tab1_def try_predict_def comparative_insight_def)

theorem tab1_no_row_for_hour_witness:
  "tab1 (constant_model (Finite 12)) (Some example_hours) example_trip =
           ([St_subheader ''Real-time Fare Estimator'',
             St_write ''Enter trip details to estimate the taximeter cost.'',
             St_form ''trip_form'',
             St_markdown ''---'',
             St_success (Finite 12),
             St_error ''Prediction Error'' (Some IndexError)], None)"
  using tab1_no_row_for_hour [of example_trip
      "[''km'' \<mapsto> Finite 5, ''min'' \<mapsto> Finite 15, ''hour'' \<mapsto> Finite 14, ''day'' \<mapsto> Finite 2]"
      "constant_model (Finite 12)" "Finite 12" example_hours "[Num (Finite 3)]"]
  by (simp add: x_input_example_trip example_trip_fields constant_model_def example_hours_def
        empty_df_def getitem_col_def)

section \<open>Properties of the form\<close>

lemma float_of_int_small: "\<bar>n\<bar> \<le> 300 \<Longrightarrow> float_of_int n = Inr (Finite (of_int n))"
proof -
  assume a: "\<bar>n\<bar> \<le> 300"
  have "(300::int) < 2 ^ 1024 - 2 ^ 970" by simp
  with a show ?thesis by (simp add: float_of_int_def)
qed

lemma day_map_range:
  "t \<in> set [''Monday'', ''Tuesday'', ''Wednesday'', ''Thursday'', ''Friday'', ''Saturday'', ''Sunday'']
   \<Longrightarrow> \<exists>d. day_map t = Some d \<and> 0 \<le> d \<and> d \<le> 6"
  by (auto simp: day_map_def)

text \<open>
  C9. Whatever the four widgets of the form answer within their bounds and options, the
  dictionary handed to the model is built without an exception and holds a finite km
  in [0.1, 200.0], min the float of an int in [1, 300], hour the float of an int in
  [0, 23] and day the float of the int in [0, 6] that \<^verbatim>\<open>day_map\<close> gives the day name.
\<close>

theorem x_input_satisfies_invariant:
  assumes "trip_form_widgets f"
  shows "\<exists>km d. distance f = Finite km \<and> 0.1 \<le> km \<and> km \<le> 200.0 \<and>
           1 \<le> duration f \<and> duration f \<le> 300 \<and>
           0 \<le> hour f \<and> hour f \<le> 23 \<and>
           day_map (day_text f) = Some d \<and> 0 \<le> d \<and> d \<le> 6 \<and>
           x_input f = Inr [''km'' \<mapsto> Finite km,
                            ''min'' \<mapsto> Finite (of_int (duration f)),
                            ''hour'' \<mapsto> Finite (of_int (hour f)),
                            ''day'' \<mapsto> Finite (of_int d)]"
proof -
  from assms obtain km where km: "distance f = Finite km" "0.1 \<le> km" "km \<le> 200.0"
    by (cases "distance f") (auto simp: trip_form_widgets_def)
  from assms have du: "1 \<le> duration f" "duration f \<le> 300"
    by (auto simp: trip_form_widgets_def number_input_int_def)
  from assms have ho: "0 \<le> hour f" "hour f \<le> 23"
    by (auto simp: trip_form_widgets_def slider_def)
  from assms obtain d where d: "day_map (day_text f) = Some d" "0 \<le> d" "d \<le> 6"
    using day_map_range [of "day_text f"] by (auto simp: trip_form_widgets_def selectbox_def)
  have "x_input f = Inr [''km'' \<mapsto> Finite km,
                            ''min'' \<mapsto> Finite (of_int (duration f)),
                            ''hour'' \<mapsto> Finite (of_int (hour f)),
                            ''day'' \<mapsto> Finite (of_int d)]"
    using km du ho d by (simp add: x_input_def float_of_int_small)
  with km du ho d show ?thesis by blast
qed

theorem x_input_satisfies_invariant_witness:
  "trip_form_widgets example_trip \<and>
   x_input example_trip =
     Inr [''km'' \<mapsto> Finite 5, ''min'' \<mapsto> Finite 15, ''hour'' \<mapsto> Finite 14, ''day'' \<mapsto> Finite 2]"
proof -
  have w: "trip_form_widgets example_trip"
    by (simp add: trip_form_widgets_def example_trip_def number_input_int_def slider_def
          selectbox_def)
  from x_input_satisfies_invariant [OF w] show ?thesis
    using w by (simp add: example_trip_def day_map_def)
qed

section \<open>Properties of the page\<close>

lemma tab2_empty_table:
  assumes "empty_df dh \<or> empty_df dd"
  shows "tab2 w (Some dh) (Some dd) =
           ([St_subheader ''Historical Market Trends (Gold Layer)'',
             St_warning ''Gold data could not be loaded from the Bucket.''], None)"
  using assms by (auto simp: tab2_def Let_def)

lemma comparative_insight_empty:
  "empty_df dh \<Longrightarrow> comparative_insight (Some dh) h prediction = ([], None)"
  by (simp add: comparative_insight_def)

lemma load_resources_absent:
  "open_rb w ''modelo_taxi_fare.pkl'' = Inl FileNotFoundError \<Longrightarrow>
   load_resources w = ([], Inr (PyNone, None, None))"
  by (simp add: load_resources_def except_FileNotFoundError_def)

lemma load_resources_unavailable:
  assumes "open_rb w ''modelo_taxi_fare.pkl'' = Inr b"
      and "pickle_load w b = Inr model"
      and "(\<exists>e. read_csv w (GOLD_PATH @ ''/gold_stats_hour.csv'') = Inl e) \<or>
           (\<exists>e. read_csv w (GOLD_PATH @ ''/gold_stats_day.csv'') = Inl e) \<or>
           (\<exists>dh dd. read_csv w (GOLD_PATH @ ''/gold_stats_hour.csv'') = Inr dh \<and>
                    read_csv w (GOLD_PATH @ ''/gold_stats_day.csv'') = Inr dd \<and>
                    (empty_df dh \<or> empty_df dd))"
  shows "\<exists>shown dh dd.
           load_resources w = (shown, Inr (model, Some dh, Some dd)) \<and>
           (empty_df dh \<or> empty_df dd) \<and>
           ((\<exists>e. shown = [St_error ''Error reading from Bucket'' (Some e)]) \<or>
            shown = [St_toast ''Gold Data successfully loaded from GCS'']) \<and>
           ((\<exists>e. read_csv w (GOLD_PATH @ ''/gold_stats_hour.csv'') = Inl e) \<or>
            (\<exists>e. read_csv w (GOLD_PATH @ ''/gold_stats_day.csv'') = Inl e) \<longrightarrow> dh = DataFrame) \<and>
           (\<forall>t dd'. read_csv w (GOLD_PATH @ ''/gold_stats_hour.csv'') = Inr t \<and>
                 read_csv w (GOLD_PATH @ ''/gold_stats_day.csv'') = Inr dd' \<longrightarrow> dh = t)"
proof (cases "read_csv w (GOLD_PATH @ ''/gold_stats_hour.csv'')")
  case (Inl e)
  with assms(1,2) show ?thesis
    by (simp add: load_resources_def empty_df_DataFrame)
next
  case hour_read: (Inr dh)
  show ?thesis
  proof (cases "read_csv w (GOLD_PATH @ ''/gold_stats_day.csv'')")
    case (Inl e)
    with hour_read assms(1,2) show ?thesis
      by (simp add: load_resources_def empty_df_DataFrame)
  next
    case (Inr dd)
    with hour_read assms show ?thesis
      by (simp add: load_resources_def)
  qed
qed

text \<open>
  C3. The artifact file is absent: \<^verbatim>\<open>open\<close> raises FileNotFoundError. Then the run
  shows the page header, the critical error and the upload hint, and halts at
  \<^verbatim>\<open>st.stop()\<close>: neither tab is rendered, so no fare is shown. The cache keeps the
  triple of \<^verbatim>\<open>None\<close>, and with it every later run, whatever the world and the form are
  by then, halts in the same way without trying the file again.
\<close>

theorem absent_artifact_halts:
  assumes "open_rb w ''modelo_taxi_fare.pkl'' = Inl FileNotFoundError"
  shows "app w None f =
           ([St_title ''Chicago Taxi: AI & Analytics'',
             St_markdown ''### Final Cloud Computing Project'',
             St_markdown ''Integrated platform for Fare Prediction (AI) and Business Intelligence (BI).'',
             St_error ''Critical Error: modelo_taxi_river.pkl not found.'' None,
             St_warning ''Please make sure to upload the .pkl file to the app directory.''],
            Stopped, Some ([], (PyNone, None, None)))
         \<and> app w' (Some ([], (PyNone, None, None))) f' =
           ([St_title ''Chicago Taxi: AI & Analytics'',
             St_markdown ''### Final Cloud Computing Project'',
             St_markdown ''Integrated platform for Fare Prediction (AI) and Business Intelligence (BI).'',
             St_error ''Critical Error: modelo_taxi_river.pkl not found.'' None,
             St_warning ''Please make sure to upload the .pkl file to the app directory.''],
            Stopped, Some ([], (PyNone, None, None)))"
  using load_resources_absent [OF assms]
  by (simp add: app_def cached_load_resources_def)

theorem absent_artifact_halts_witness:
  "app no_artifact_world None example_trip =
           ([St_title ''Chicago Taxi: AI & Analytics'',
             St_markdown ''### Final Cloud Computing Project'',
             St_markdown ''Integrated platform for Fare Prediction (AI) and Business Intelligence (BI).'',
             St_error ''Critical Error: modelo_taxi_river.pkl not found.'' None,
             St_warning ''Please make sure to upload the .pkl file to the app directory.''],
            Stopped, Some ([], (PyNone, None, None)))
   \<and> app bucket_down_world (Some ([], (PyNone, None, None))) example_trip =
           ([St_title ''Chicago Taxi: AI & Analytics'',
             St_markdown ''### Final Cloud Computing Project'',
             St_markdown ''Integrated platform for Fare Prediction (AI) and Business Intelligence (BI).'',
             St_error ''Critical Error: modelo_taxi_river.pkl not found.'' None,
             St_warning ''Please make sure to upload the .pkl file to the app directory.''],
            Stopped, Some ([], (PyNone, None, None)))"
proof -
  have "open_rb no_artifact_world ''modelo_taxi_fare.pkl'' = Inl FileNotFoundError"
    by (simp add: no_artifact_world_def)
  from absent_artifact_halts [OF this] show ?thesis .
qed

text \<open>
  C4. A model was loaded, and the aggregate tables are missing (reading either CSV
  raises) or empty (both were read, and the hourly or the daily table is empty). Then,
  for a submitted form whose dictionary the model answers with a fare, the run does
  not raise and does not halt: the page shows the notice of the load (the bucket error,
  or the toast when both files were read), the estimated fare, and in the dashboard tab
  the warning that the gold data could not be loaded. When the hourly table is missing
  or empty nothing stands between the fare and the dashboard tab: the comparison is
  skipped. When only the daily table is empty the hourly table is still compared with,
  as on any other run: the two metrics, or the message of an exception of the lookup.
\<close>

theorem statistics_unavailable_degrades:
  assumes "open_rb w ''modelo_taxi_fare.pkl'' = Inr b"
      and "pickle_load w b = Inr (Pipeline p)"
      and "(\<exists>e. read_csv w (GOLD_PATH @ ''/gold_stats_hour.csv'') = Inl e) \<or>
           (\<exists>e. read_csv w (GOLD_PATH @ ''/gold_stats_day.csv'') = Inl e) \<or>
           (\<exists>dh dd. read_csv w (GOLD_PATH @ ''/gold_stats_hour.csv'') = Inr dh \<and>
                    read_csv w (GOLD_PATH @ ''/gold_stats_day.csv'') = Inr dd \<and>
                    (empty_df dh \<or> empty_df dd))"
      and "submitted f"
      and "x_input f = Inr x"
      and "p x = Inr prediction"
  shows "\<exists>shown insight c'.
           app w None f =
             ([St_title ''Chicago Taxi: AI & Analytics'',
               St_markdown ''### Final Cloud Computing Project'',
               St_markdown ''Integrated platform for Fare Prediction (AI) and Business Intelligence (BI).'']
              @ shown @
              [St_subheader ''Real-time Fare Estimator'',
               St_write ''Enter trip details to estimate the taximeter cost.'',
               St_form ''trip_form'',
               St_markdown ''---'',
               St_success prediction]
              @ insight @
              [St_subheader ''Historical Market Trends (Gold Layer)'',
               St_warning ''Gold data could not be loaded from the Bucket.''],
              Finished, c')
           \<and> ((\<exists>e. shown = [St_error ''Error reading from Bucket'' (Some e)]) \<or>
                shown = [St_toast ''Gold Data successfully loaded from GCS''])
           \<and> ((\<exists>e. read_csv w (GOLD_PATH @ ''/gold_stats_hour.csv'') = Inl e) \<or>
                (\<exists>e. read_csv w (GOLD_PATH @ ''/gold_stats_day.csv'') = Inl e) \<or>
                (\<exists>dh. read_csv w (GOLD_PATH @ ''/gold_stats_hour.csv'') = Inr dh \<and> empty_df dh)
                \<longrightarrow> insight = [])
           \<and> (\<forall>dh dd. read_csv w (GOLD_PATH @ ''/gold_stats_hour.csv'') = Inr dh \<and>
                       read_csv w (GOLD_PATH @ ''/gold_stats_day.csv'') = Inr dd \<longrightarrow>
                insight =
                  (case comparative_insight (Some dh) (hour f) prediction of
                     (metrics, None) \<Rightarrow> metrics
                   | (metrics, Some e) \<Rightarrow> metrics @ [St_error ''Prediction Error'' (Some e)]))"
proof -
  from load_resources_unavailable [OF assms(1,2,3)] obtain shown dh dd where
    l: "load_resources w = (shown, Inr (Pipeline p, Some dh, Some dd))" and
    e: "empty_df dh \<or> empty_df dd" and
    s: "(\<exists>e. shown = [St_error ''Error reading from Bucket'' (Some e)]) \<or>
            shown = [St_toast ''Gold Data successfully loaded from GCS'']" and
    m: "(\<exists>e. read_csv w (GOLD_PATH @ ''/gold_stats_hour.csv'') = Inl e) \<or>
            (\<exists>e. read_csv w (GOLD_PATH @ ''/gold_stats_day.csv'') = Inl e) \<longrightarrow> dh = DataFrame" and
    r: "\<forall>t dd'. read_csv w (GOLD_PATH @ ''/gold_stats_hour.csv'') = Inr t \<and>
                 read_csv w (GOLD_PATH @ ''/gold_stats_day.csv'') = Inr dd' \<longrightarrow> dh = t"
    by blast
  define insight where "insight =
     (case comparative_insight (Some dh) (hour f) prediction of
        (metrics, None) \<Rightarrow> metrics
      | (metrics, Some e) \<Rightarrow> metrics @ [St_error ''Prediction Error'' (Some e)])"
  have t1: "tab1 (Pipeline p) (Some dh) f =
     ([St_subheader ''Real-time Fare Estimator'',
       St_write ''Enter trip details to estimate the taximeter cost.'',
       St_form ''trip_form'',
       St_markdown ''---'',
       St_success prediction] @ insight, None)"
    using assms(4,5,6) by (simp add: tab1_def try_predict_def insight_def)
  have a: "app w None f =
             ([St_title ''Chicago Taxi: AI & Analytics'',
               St_markdown ''### Final Cloud Computing Project'',
               St_markdown ''Integrated platform for Fare Prediction (AI) and Business Intelligence (BI).'']
              @ shown @
              [St_subheader ''Real-time Fare Estimator'',
               St_write ''Enter trip details to estimate the taximeter cost.'',
               St_form ''trip_form'',
               St_markdown ''---'',
               St_success prediction]
              @ insight @
              [St_subheader ''Historical Market Trends (Gold Layer)'',
               St_warning ''Gold data could not be loaded from the Bucket.''],
              Finished, Some (shown, (Pipeline p, Some dh, Some dd)))"
    using l t1 tab2_empty_table [OF e, of w]
    by (simp add: app_def cached_load_resources_def)
  have skipped: "empty_df dh \<Longrightarrow> insight = []"
    by (simp add: insight_def comparative_insight_empty)
  have u: "(\<exists>e. read_csv w (GOLD_PATH @ ''/gold_stats_hour.csv'') = Inl e) \<or>
                (\<exists>e. read_csv w (GOLD_PATH @ ''/gold_stats_day.csv'') = Inl e) \<or>
                (\<exists>dh. read_csv w (GOLD_PATH @ ''/gold_stats_hour.csv'') = Inr dh \<and> empty_df dh)
                \<longrightarrow> insight = []"
  proof
    assume c: "(\<exists>e. read_csv w (GOLD_PATH @ ''/gold_stats_hour.csv'') = Inl e) \<or>
                (\<exists>e. read_csv w (GOLD_PATH @ ''/gold_stats_day.csv'') = Inl e) \<or>
                (\<exists>dh. read_csv w (GOLD_PATH @ ''/gold_stats_hour.csv'') = Inr dh \<and> empty_df dh)"
    show "insight = []"
    proof (cases "(\<exists>e. read_csv w (GOLD_PATH @ ''/gold_stats_hour.csv'') = Inl e) \<or>
                (\<exists>e. read_csv w (GOLD_PATH @ ''/gold_stats_day.csv'') = Inl e)")
      case True
      with m have "dh = DataFrame" by blast
      then show ?thesis using skipped empty_df_DataFrame by simp
    next
      case False
      with c obtain t where t: "read_csv w (GOLD_PATH @ ''/gold_stats_hour.csv'') = Inr t" "empty_df t"
        by blast
      from False obtain dd' where "read_csv w (GOLD_PATH @ ''/gold_stats_day.csv'') = Inr dd'"
        by (cases "read_csv w (GOLD_PATH @ ''/gold_stats_day.csv'')") auto
      with t r have "dh = t" by blast
      with t skipped show ?thesis by simp
    qed
  qed
  have v: "\<forall>dh dd. read_csv w (GOLD_PATH @ ''/gold_stats_hour.csv'') = Inr dh \<and>
                       read_csv w (GOLD_PATH @ ''/gold_stats_day.csv'') = Inr dd \<longrightarrow>
                insight =
                  (case comparative_insight (Some dh) (hour f) prediction of
                     (metrics, None) \<Rightarrow> metrics
                   | (metrics, Some e) \<Rightarrow> metrics @ [St_error ''Prediction Error'' (Some e)])"
    using r by (auto simp: insight_def)
  from a s u v show ?thesis by blast
qed


theorem statistics_unavailable_degrades_witness:
  "(\<exists>shown c'.
     app bucket_down_world None example_trip =
             ([St_title ''Chicago Taxi: AI & Analytics'',
               St_markdown ''### Final Cloud Computing Project'',
               St_markdown ''Integrated platform for Fare Prediction (AI) and Business Intelligence (BI).'']
              @ shown @
              [St_subheader ''Real-time Fare Estimator'',
               St_write ''Enter trip details to estimate the taximeter cost.'',
               St_form ''trip_form'',
               St_markdown ''---'',
               St_success (Finite 12),
               St_subheader ''Historical Market Trends (Gold Layer)'',
               St_warning ''Gold data could not be loaded from the Bucket.''],
              Finished, c'))
   \<and> (\<exists>shown c'.
     app no_days_world None example_trip =
             ([St_title ''Chicago Taxi: AI & Analytics'',
               St_markdown ''### Final Cloud Computing Project'',
               St_markdown ''Integrated platform for Fare Prediction (AI) and Business Intelligence (BI).'']
              @ shown @
              [St_subheader ''Real-time Fare Estimator'',
               St_write ''Enter trip details to estimate the taximeter cost.'',
               St_form ''trip_form'',
               St_markdown ''---'',
               St_success (Finite 12),
               St_metric ''Your Estimate'' (Finite 12) None,
               St_metric ''Hist. Avg at this Hour'' (Finite 10) (Some (Finite 2)),
               St_subheader ''Historical Market Trends (Gold Layer)'',
               St_warning ''Gold data could not be loaded from the Bucket.''],
              Finished, c'))"
proof
  have 1: "open_rb bucket_down_world ''modelo_taxi_fare.pkl'' = Inr [128, 4, 149]"
    by (simp add: bucket_down_world_def)
  have 2: "pickle_load bucket_down_world [128, 4, 149] = Inr (Pipeline (\<lambda>x. Inr (Finite 12)))"
    by (simp add: bucket_down_world_def constant_model_def)
  have h: "read_csv bucket_down_world (GOLD_PATH @ ''/gold_stats_hour.csv'') =
             Inl (OtherException ''DefaultCredentialsError'')"
    by (simp add: bucket_down_world_def)
  then have 3: "(\<exists>e. read_csv bucket_down_world (GOLD_PATH @ ''/gold_stats_hour.csv'') = Inl e) \<or>
           (\<exists>e. read_csv bucket_down_world (GOLD_PATH @ ''/gold_stats_day.csv'') = Inl e) \<or>
           (\<exists>dh dd. read_csv bucket_down_world (GOLD_PATH @ ''/gold_stats_hour.csv'') = Inr dh \<and>
                    read_csv bucket_down_world (GOLD_PATH @ ''/gold_stats_day.csv'') = Inr dd \<and>
                    (empty_df dh \<or> empty_df dd))"
    by blast
  have 6: "(\<lambda>x. Inr (Finite 12))
             [''km'' \<mapsto> Finite 5, ''min'' \<mapsto> Finite 15, ''hour'' \<mapsto> Finite 14, ''day'' \<mapsto> Finite 2]
       = (Inr (Finite 12) :: exn + pyfloat)"
    by simp
  from statistics_unavailable_degrades
         [OF 1 2 3 example_trip_fields(1) x_input_example_trip 6] h
  show "\<exists>shown c'.
     app bucket_down_world None example_trip =
             ([St_title ''Chicago Taxi: AI & Analytics'',
               St_markdown ''### Final Cloud Computing Project'',
               St_markdown ''Integrated platform for Fare Prediction (AI) and Business Intelligence (BI).'']
              @ shown @
              [St_subheader ''Real-time Fare Estimator'',
               St_write ''Enter trip details to estimate the taximeter cost.'',
               St_form ''trip_form'',
               St_markdown ''---'',
               St_success (Finite 12),
               St_subheader ''Historical Market Trends (Gold Layer)'',
               St_warning ''Gold data could not be loaded from the Bucket.''],
              Finished, c')"
    by auto
next
  have 1: "open_rb no_days_world ''modelo_taxi_fare.pkl'' = Inr [128, 4, 149]"
    by (simp add: no_days_world_def)
  have 2: "pickle_load no_days_world [128, 4, 149] = Inr (Pipeline (\<lambda>x. Inr (Finite 12)))"
    by (simp add: no_days_world_def constant_model_def)
  have h: "read_csv no_days_world (GOLD_PATH @ ''/gold_stats_hour.csv'') = Inr afternoon_hours"
    by (simp add: no_days_world_def)
  have d: "read_csv no_days_world (GOLD_PATH @ ''/gold_stats_day.csv'') = Inr no_days"
    by (simp add: no_days_world_def)
  have "empty_df no_days"
    by (simp add: empty_df_def no_days_def)
  with h d have 3: "(\<exists>e. read_csv no_days_world (GOLD_PATH @ ''/gold_stats_hour.csv'') = Inl e) \<or>
           (\<exists>e. read_csv no_days_world (GOLD_PATH @ ''/gold_stats_day.csv'') = Inl e) \<or>
           (\<exists>dh dd. read_csv no_days_world (GOLD_PATH @ ''/gold_stats_hour.csv'') = Inr dh \<and>
                    read_csv no_days_world (GOLD_PATH @ ''/gold_stats_day.csv'') = Inr dd \<and>
                    (empty_df dh \<or> empty_df dd))"
    by blast
  have 6: "(\<lambda>x. Inr (Finite 12))
             [''km'' \<mapsto> Finite 5, ''min'' \<mapsto> Finite 15, ''hour'' \<mapsto> Finite 14, ''day'' \<mapsto> Finite 2]
       = (Inr (Finite 12) :: exn + pyfloat)"
    by simp
  have c: "comparative_insight (Some afternoon_hours) (hour example_trip) (Finite 12) =
             ([St_metric ''Your Estimate'' (Finite 12) None,
               St_metric ''Hist. Avg at this Hour'' (Finite 10) (Some (Finite 2))], None)"
    by (simp add: comparative_insight_def afternoon_hours_def empty_df_def avg_fare_at_hour_def
          getitem_col_def getitem_mask_def example_trip_fields)
  from statistics_unavailable_degrades
         [OF 1 2 3 example_trip_fields(1) x_input_example_trip 6] h d c
  show "\<exists>shown c'.
     app no_days_world None example_trip =
             ([St_title ''Chicago Taxi: AI & Analytics'',
               St_markdown ''### Final Cloud Computing Project'',
               St_markdown ''Integrated platform for Fare Prediction (AI) and Business Intelligence (BI).'']
              @ shown @
              [St_subheader ''Real-time Fare Estimator'',
               St_write ''Enter trip details to estimate the taximeter cost.'',
               St_form ''trip_form'',
               St_markdown ''---'',
               St_success (Finite 12),
               St_metric ''Your Estimate'' (Finite 12) None,
               St_metric ''Hist. Avg at this Hour'' (Finite 10) (Some (Finite 2)),
               St_subheader ''Historical Market Trends (Gold Layer)'',
               St_warning ''Gold data could not be loaded from the Bucket.''],
              Finished, c')"
    by auto
qed

lemma estimated_fares_append: "estimated_fares (a @ b) = estimated_fares a @ estimated_fares b"
  by (induction a rule: estimated_fares.induct) auto

lemma estimated_fares_comparative:
  "estimated_fares (fst (comparative_insight df h p)) = []"
  by (auto simp: comparative_insight_def split: option.splits sum.splits cell.splits)

lemma estimated_fares_try_predict:
  "estimated_fares (try_predict model df h x) =
     (case predict_one model x of Inl e \<Rightarrow> [] | Inr p \<Rightarrow> [p])"
proof (cases "predict_one model x")
  case (Inl e)
  then show ?thesis by (simp add: try_predict_def)
next
  case (Inr p)
  obtain shown r where c: "comparative_insight df h p = (shown, r)"
    by (cases "comparative_insight df h p")
  with estimated_fares_comparative [of df h p] have "estimated_fares shown = []" by simp
  with Inr c show ?thesis
    by (cases r) (simp_all add: try_predict_def estimated_fares_append)
qed

lemma loaded_model_read_csv: "loaded_model (w\<lparr>read_csv := tables\<rparr>) = loaded_model w"
  by (simp add: loaded_model_def load_resources_def except_FileNotFoundError_def
        split: sum.splits)

text \<open>
  C5. The aggregate tables never reach the model. The dictionary given to
  \<^verbatim>\<open>predict_one\<close> is built from the form alone, so for any two hourly tables (or
  \<^verbatim>\<open>None\<close>) the fare the calculator tab shows for the same model and form is the same,
  and so is the exception, if any, that leaves the tab; and the model that
  \<^verbatim>\<open>load_resources\<close> returns is the same whatever \<^verbatim>\<open>read_csv\<close> answers.
\<close>

theorem estimate_independent_of_tables:
  "estimated_fares (fst (tab1 model df_hour f)) = estimated_fares (fst (tab1 model df_hour' f))
   \<and> snd (tab1 model df_hour f) = snd (tab1 model df_hour' f)
   \<and> loaded_model (w\<lparr>read_csv := tables\<rparr>) = loaded_model w"
  by (simp add: tab1_def Let_def estimated_fares_try_predict loaded_model_read_csv
        split: sum.splits)

theorem estimate_independent_of_tables_witness:
  "estimated_fares (fst (tab1 (constant_model (Finite 12)) (Some example_hours) example_trip)) = [Finite 12]
   \<and> estimated_fares (fst (tab1 (constant_model (Finite 12)) (Some DataFrame) example_trip)) = [Finite 12]"
proof -
  have "estimated_fares (fst (tab1 (constant_model (Finite 12)) (Some DataFrame) example_trip)) = [Finite 12]"
    by (simp add: tab1_def try_predict_def comparative_insight_def empty_df_DataFrame
          x_input_example_trip example_trip_fields constant_model_def)
  with estimate_independent_of_tables
         [of "constant_model (Finite 12)" "Some example_hours" example_trip "Some DataFrame"]
  show ?thesis by simp
qed

text \<open>
  C7, as the code has it. The artifact file unpickles to an object that is no model.
  \<^verbatim>\<open>load_resources\<close> returns it as the model all the same, the script does not halt,
  and the mismatch shows only when the form is submitted, as the AttributeError of
  \<^verbatim>\<open>model.predict_one\<close>.
\<close>

theorem mismatched_artifact_counterexample:
  "load_resources mismatched_world =
     ([St_toast ''Gold Data successfully loaded from GCS''],
      Inr (OtherObj, Some example_hours, Some no_days))
   \<and> app mismatched_world None example_trip =
     ([St_title ''Chicago Taxi: AI & Analytics'',
       St_markdown ''### Final Cloud Computing Project'',
       St_markdown ''Integrated platform for Fare Prediction (AI) and Business Intelligence (BI).'',
       St_toast ''Gold Data successfully loaded from GCS'',
       St_subheader ''Real-time Fare Estimator'',
       St_write ''Enter trip details to estimate the taximeter cost.'',
       St_form ''trip_form'',
       St_error ''Prediction Error'' (Some AttributeError),
       St_subheader ''Historical Market Trends (Gold Layer)'',
       St_warning ''Gold data could not be loaded from the Bucket.''],
      Finished,
      Some ([St_toast ''Gold Data successfully loaded from GCS''],
            (OtherObj, Some example_hours, Some no_days)))"
  by (simp add: load_resources_def mismatched_world_def app_def cached_load_resources_def
        tab1_def tab2_def try_predict_def x_input_def example_trip_def float_of_int_def
        day_map_def example_hours_def no_days_def empty_df_def)

text \<open>
  C7, amended. Deserialization is \<^verbatim>\<open>pickle.load\<close> of the file and nothing more: no
  version tag and no shape is read or compared. Whatever object \<^verbatim>\<open>pickle.load\<close>
  returns is returned by \<^verbatim>\<open>load_resources\<close> as the model, with two tables. A load is
  refused only by an exception of \<^verbatim>\<open>open\<close> or \<^verbatim>\<open>pickle.load\<close> itself: a
  FileNotFoundError gives the triple of \<^verbatim>\<open>None\<close>, any other exception leaves
  \<^verbatim>\<open>load_resources\<close> uncaught.
\<close>

theorem load_resources_checks_nothing:
  "(open_rb w ''modelo_taxi_fare.pkl'' = Inr b \<and> pickle_load w b = Inr obj \<longrightarrow>
      (\<exists>shown dh dd. load_resources w = (shown, Inr (obj, Some dh, Some dd))))
   \<and> (open_rb w ''modelo_taxi_fare.pkl'' = Inr b \<and> pickle_load w b = Inl e \<longrightarrow>
      load_resources w =
        (if e = FileNotFoundError then ([], Inr (PyNone, None, None)) else ([], Inl e)))
   \<and> (open_rb w ''modelo_taxi_fare.pkl'' = Inl e \<longrightarrow>
      load_resources w =
        (if e = FileNotFoundError then ([], Inr (PyNone, None, None)) else ([], Inl e)))"
  by (auto simp: load_resources_def except_FileNotFoundError_def split: sum.splits)

theorem load_resources_checks_nothing_witness:
  "\<exists>shown dh dd. load_resources bucket_down_world =
      (shown, Inr (constant_model (Finite 12), Some dh, Some dd))"
  using load_resources_checks_nothing
          [of bucket_down_world "[128, 4, 149]" "constant_model (Finite 12)"]
  by (simp add: bucket_down_world_def)

section \<open>Properties of the input check\<close>



end
